theory Spec2Isabelle
  imports Complex_Main
begin

section \<open>Python values, exceptions and built-ins\<close>

text \<open>
  The controllers of \<^verbatim>\<open>dual_prompt_improver.py\<close> and \<^verbatim>\<open>enhanced_dual_improver.py\<close>
  handle whatever \<^verbatim>\<open>json.loads\<close> returns, so the values of the model are the JSON
  values of Python: \<^verbatim>\<open>None\<close>, booleans, integers, finite floats (as rationals),
  strings, lists and dicts (association lists, the first binding of a key is the
  dict's). Floating-point arithmetic is idealised: the statistics and the confidence
  formulas are computed over the reals, exactly.
\<close>

datatype pyval =
    PNone
  | PBool bool
  | PInt int
  | PFloat rat
  | PStr string
  | PList "pyval list"
  | PDict "(string \<times> pyval) list"

type_synonym pydict = "(string \<times> pyval) list"

datatype py_error =
    ValueError | TypeError | AttributeError | KeyError | ZeroDivisionError | FileNotFoundError

definition bindE :: "py_error + 'a \<Rightarrow> ('a \<Rightarrow> py_error + 'b) \<Rightarrow> py_error + 'b" where
  "bindE m f = (case m of Inl e \<Rightarrow> Inl e | Inr x \<Rightarrow> f x)"

text \<open>Truth value testing, as in \<^verbatim>\<open>if not response\<close> and \<^verbatim>\<open>if variations\<close>.\<close>

fun truthy :: "pyval \<Rightarrow> bool" where
  "truthy PNone = False"
| "truthy (PBool b) = b"
| "truthy (PInt i) = (i \<noteq> 0)"
| "truthy (PFloat q) = (q \<noteq> 0)"
| "truthy (PStr s) = (s \<noteq> [])"
| "truthy (PList xs) = (xs \<noteq> [])"
| "truthy (PDict d) = (d \<noteq> [])"

text \<open>\<^verbatim>\<open>d.get(k, default)\<close> on a dict, and on any value: only dicts have \<^verbatim>\<open>get\<close>.\<close>

definition dict_get :: "pydict \<Rightarrow> string \<Rightarrow> pyval \<Rightarrow> pyval" where
  "dict_get d k dflt = (case map_of d k of None \<Rightarrow> dflt | Some v \<Rightarrow> v)"

fun py_get :: "pyval \<Rightarrow> string \<Rightarrow> pyval \<Rightarrow> py_error + pyval" where
  "py_get (PDict d) k dflt = Inr (dict_get d k dflt)"
| "py_get v k dflt = Inl AttributeError"

text \<open>\<^verbatim>\<open>d[k]\<close> on a dict.\<close>

definition dict_index :: "pydict \<Rightarrow> string \<Rightarrow> py_error + pyval" where
  "dict_index d k = (case map_of d k of None \<Rightarrow> Inl KeyError | Some v \<Rightarrow> Inr v)"

text \<open>
  \<^verbatim>\<open>int(s)\<close> on a string: surrounding whitespace is dropped, one sign is allowed, then
  decimal digits with single underscores between them (ASCII only).
\<close>

definition is_space :: "char \<Rightarrow> bool" where
  "is_space c = ((of_char c :: nat) \<in> set [9, 10, 11, 12, 13, 28, 29, 30, 31, 32])"

definition is_digit :: "char \<Rightarrow> bool" where
  "is_digit c = (48 \<le> (of_char c :: nat) \<and> (of_char c :: nat) \<le> 57)"

definition digit_val :: "char \<Rightarrow> int" where
  "digit_val c = int (of_char c) - 48"

definition strip :: "string \<Rightarrow> string" where
  "strip s = rev (dropWhile is_space (rev (dropWhile is_space s)))"

fun parse_digits :: "string \<Rightarrow> int \<Rightarrow> int option" where
  "parse_digits [] acc = None"
| "parse_digits [c] acc = (if is_digit c then Some (acc * 10 + digit_val c) else None)"
| "parse_digits (c # c' # cs) acc =
     (if \<not> is_digit c then None
      else if c' = CHR ''_'' then parse_digits cs (acc * 10 + digit_val c)
      else parse_digits (c' # cs) (acc * 10 + digit_val c))"

definition int_of_str :: "string \<Rightarrow> int option" where
  "int_of_str s =
     (case strip s of
        [] \<Rightarrow> None
      | c # cs \<Rightarrow>
          if c = CHR ''-'' then map_option uminus (parse_digits cs 0)
          else if c = CHR ''+'' then parse_digits cs 0
          else parse_digits (c # cs) 0)"

text \<open>\<^verbatim>\<open>int(v)\<close>: floats are truncated towards zero, \<^verbatim>\<open>None\<close>, lists and dicts are a
  \<^verbatim>\<open>TypeError\<close>, a string that is no integer literal is a \<^verbatim>\<open>ValueError\<close>.\<close>

fun py_int :: "pyval \<Rightarrow> py_error + int" where
  "py_int (PInt i) = Inr i"
| "py_int (PBool b) = Inr (if b then 1 else 0)"
| "py_int (PFloat q) = Inr (if 0 \<le> q then \<lfloor>q\<rfloor> else \<lceil>q\<rceil>)"
| "py_int (PStr s) = (case int_of_str s of None \<Rightarrow> Inl ValueError | Some i \<Rightarrow> Inr i)"
| "py_int v = Inl TypeError"

text \<open>The number a value stands for in arithmetic and comparisons with numbers;
  anything that is no number raises \<^verbatim>\<open>TypeError\<close> there.\<close>

fun py_num :: "pyval \<Rightarrow> py_error + real" where
  "py_num (PInt i) = Inr (of_int i)"
| "py_num (PBool b) = Inr (if b then 1 else 0)"
| "py_num (PFloat q) = Inr (of_rat q)"
| "py_num v = Inl TypeError"

fun nums :: "pyval list \<Rightarrow> py_error + real list" where
  "nums [] = Inr []"
| "nums (v # vs) = bindE (py_num v) (\<lambda>x. bindE (nums vs) (\<lambda>xs. Inr (x # xs)))"

text \<open>\<^verbatim>\<open>round(x)\<close> of a float: the nearest integer, a tie goes to the even one.\<close>

definition py_round :: "real \<Rightarrow> int" where
  "py_round x =
     (let f = \<lfloor>x\<rfloor>; d = x - of_int f
      in if d < 1 / 2 then f else if 1 / 2 < d then f + 1 else if even f then f else f + 1)"

text \<open>The slices \<^verbatim>\<open>xs[-w:]\<close> and \<^verbatim>\<open>xs[:n]\<close>, for any integers \<open>w\<close> and \<open>n\<close>.\<close>

definition py_slice_last :: "int \<Rightarrow> 'a list \<Rightarrow> 'a list" where
  "py_slice_last w xs = (if 0 < w then drop (length xs - nat w) xs else drop (nat (- w)) xs)"

definition py_take :: "int \<Rightarrow> 'a list \<Rightarrow> 'a list" where
  "py_take n xs = (if 0 \<le> n then take (nat n) xs else take (length xs - nat (- n)) xs)"

text \<open>\<^verbatim>\<open>statistics.mean\<close> and \<^verbatim>\<open>statistics.stdev\<close> (the sample standard deviation); the
  source calls the first on non-empty data and the second on two points or more.\<close>

definition py_mean :: "real list \<Rightarrow> real" where
  "py_mean xs = sum_list xs / real (length xs)"

definition py_stdev :: "real list \<Rightarrow> real" where
  "py_stdev xs = sqrt (sum_list (map (\<lambda>x. (x - py_mean xs)\<^sup>2) xs) / real (length xs - 1))"

section \<open>Configuration\<close>

text \<open>The module-level constants of \<^verbatim>\<open>config.py\<close> and of the enhanced module.\<close>

record config =
  TARGET_SCORE :: int
  MAX_ITERATIONS :: int
  IMPROVE_CRITIQUE_EVERY :: int
  CRITIQUE_IMPROVEMENT_THRESHOLD :: int
  ENABLE_CRITIQUE_IMPROVEMENT :: bool
  ENABLE_SYSTEM_PROMPT_IMPROVEMENT :: bool
  EARLY_STOPPING_PATIENCE :: int
  DETAILED_LOGGING :: bool
  CONFIDENCE_THRESHOLD :: int
  VALIDATION_ROUNDS :: int
  CRITIQUE_STABILITY_WINDOW :: int

definition default_config :: config where
  "default_config =
     \<lparr> TARGET_SCORE = 95, MAX_ITERATIONS = 15, IMPROVE_CRITIQUE_EVERY = 3,
       CRITIQUE_IMPROVEMENT_THRESHOLD = 85, ENABLE_CRITIQUE_IMPROVEMENT = True,
       ENABLE_SYSTEM_PROMPT_IMPROVEMENT = True, EARLY_STOPPING_PATIENCE = 3,
       DETAILED_LOGGING = True, CONFIDENCE_THRESHOLD = 90, VALIDATION_ROUNDS = 2,
       CRITIQUE_STABILITY_WINDOW = 3 \<rparr>"

section \<open>The critique reliability validator\<close>

text \<open>
  \<^verbatim>\<open>validate_critique_quality\<close>. The \<^verbatim>\<open>reason\<close> entry is a formatted log line; its text
  is not modelled beyond the fixed prefix.
\<close>

definition validate_critique_quality :: "config \<Rightarrow> pydict list \<Rightarrow> py_error + pydict" where
  "validate_critique_quality cfg critique_history =
     (if length critique_history < 2 then
        Inr [(''is_valid'', PBool True), (''confidence'', PInt 50),
             (''reason'', PStr ''Insufficient history'')]
      else
        let recent_scores =
              map (\<lambda>h. dict_get h ''score'' (PInt 0))
                (py_slice_last (CRITIQUE_STABILITY_WINDOW cfg) critique_history);
            recent_meta_scores =
              map (\<lambda>h. dict_get h ''meta_score'' (PInt 0))
                (py_slice_last (CRITIQUE_STABILITY_WINDOW cfg) critique_history)
        in
        bindE (if 1 < length recent_scores
               then bindE (nums recent_scores) (\<lambda>xs. Inr (py_stdev xs)) else Inr 0)
          (\<lambda>score_std.
        let consistency_score = max 0 (100 - score_std * 2) in
        bindE (if 2 \<le> length recent_scores
               then bindE (py_num (last recent_scores)) (\<lambda>l.
                    bindE (py_num (hd recent_scores)) (\<lambda>f.
                      Inr (max 0 (min 100 (50 + (l - f) * 2)))))
               else Inr 50)
          (\<lambda>trend_score.
        bindE (if recent_meta_scores \<noteq> []
               then bindE (nums recent_meta_scores) (\<lambda>ms. Inr (py_mean ms)) else Inr 0)
          (\<lambda>meta_avg.
        let meta_stability =
              (if of_int (CRITIQUE_IMPROVEMENT_THRESHOLD cfg) \<le> meta_avg then 100 else meta_avg);
            confidence = consistency_score * 0.4 + trend_score * 0.4 + meta_stability * 0.2
        in
        Inr [(''is_valid'', PBool (70 \<le> confidence)),
             (''confidence'', PInt (py_round confidence)),
             (''consistency_score'', PInt (py_round consistency_score)),
             (''trend_score'', PInt (py_round trend_score)),
             (''meta_stability'', PInt (py_round meta_stability)),
             (''reason'', PStr ''Confidence'')]))))"

section \<open>The confidence aggregator\<close>

text \<open>\<^verbatim>\<open>calculate_final_confidence\<close>, of \<^verbatim>\<open>self.history\<close> and
  \<^verbatim>\<open>self.critique_improvement_history\<close>.\<close>

definition calculate_final_confidence ::
  "config \<Rightarrow> pydict list \<Rightarrow> pydict list \<Rightarrow> py_error + int" where
  "calculate_final_confidence cfg hist cih =
     (if hist = [] then Inr 0
      else
        let final_score = dict_get (last hist) ''score'' (PInt 0) in
        bindE (validate_critique_quality cfg hist) (\<lambda>v.
        bindE (dict_index v ''confidence'') (\<lambda>score_stability.
        bindE (py_num final_score) (\<lambda>fs.
        bindE (if of_int (TARGET_SCORE cfg) \<le> fs then Inr 100
               else if TARGET_SCORE cfg = 0 then Inl ZeroDivisionError
               else Inr (fs / of_int (TARGET_SCORE cfg) * 100))
          (\<lambda>target_achievement.
        let final_meta_score =
              (if cih \<noteq> [] then dict_get (last cih) ''meta_score'' (PInt 0) else PInt 0) in
        bindE (py_num final_meta_score) (\<lambda>fm.
        bindE (py_num score_stability) (\<lambda>ss.
        let critique_quality = min 100 (fm + 10);
            confidence = target_achievement * 0.4 + ss * 0.3 + critique_quality * 0.3
        in Inr (py_round confidence))))))))"

section \<open>The oracle\<close>

text \<open>
  Every call of \<^verbatim>\<open>get_llm_response\<close> is a request to the remote model. A request
  records what the call is for and the artifacts it is given (the f-strings that wrap
  them are not modelled). The behaviour of the remote model during one run is a reply
  to each request, which may depend on the number of calls made before; a call that
  raises inside \<^verbatim>\<open>get_llm_response\<close> is caught there and replies \<^verbatim>\<open>None\<close>. The
  cross-validator also reads the initial critique prompt file, which may be missing.
\<close>

datatype request =
    Generate string pyval
      \<comment> \<open>system prompt, user input\<close>
  | Critique pyval pyval string string
      \<comment> \<open>critique prompt, user input, system prompt, response\<close>
  | MetaEvaluate string string string string pyval
      \<comment> \<open>critique prompt, user input, system prompt, response, critique data\<close>
  | RefineCritique string pyval
      \<comment> \<open>critique prompt, meta-evaluation\<close>
  | RefineSystem string pyval
      \<comment> \<open>system prompt, critique text\<close>
  | Variations int string
      \<comment> \<open>number of variations asked for, user input\<close>

record env =
  text_reply :: "request \<Rightarrow> nat \<Rightarrow> string option"
  json_reply :: "request \<Rightarrow> nat \<Rightarrow> pyval"
  critique_file :: "string option"

text \<open>\<^verbatim>\<open>get_llm_response\<close> with \<^verbatim>\<open>expect_json=False\<close> returns a string or \<^verbatim>\<open>None\<close>, with
  \<^verbatim>\<open>expect_json=True\<close> whatever \<^verbatim>\<open>json.loads\<close> gives, or \<^verbatim>\<open>None\<close>.\<close>

definition get_llm_response :: "env \<Rightarrow> request \<Rightarrow> nat \<Rightarrow> pyval" where
  "get_llm_response e r n = (case text_reply e r n of None \<Rightarrow> PNone | Some s \<Rightarrow> PStr s)"

definition get_llm_response_json :: "env \<Rightarrow> request \<Rightarrow> nat \<Rightarrow> pyval" where
  "get_llm_response_json e r n = json_reply e r n"

fun text_of :: "pyval \<Rightarrow> string" where
  "text_of (PStr s) = s"
| "text_of v = []"

section \<open>The cross-validator\<close>

text \<open>\<^verbatim>\<open>get_critique\<close>: the critique prompt is the one of the last rubric improvement, or
  is read from the initial critique prompt file.\<close>

definition get_critique ::
  "env \<Rightarrow> pydict list \<Rightarrow> string \<Rightarrow> pyval \<Rightarrow> string \<Rightarrow> nat \<Rightarrow> py_error + pyval" where
  "get_critique e cih system_prompt user_input response n =
     bindE (if cih \<noteq> [] then dict_index (last cih) ''new_critique_prompt''
            else (case critique_file e of None \<Rightarrow> Inl FileNotFoundError | Some s \<Rightarrow> Inr (PStr s)))
       (\<lambda>current_critique_prompt.
          Inr (get_llm_response_json e
                 (Critique current_critique_prompt user_input system_prompt response) n))"

text \<open>\<^verbatim>\<open>variations[:k]\<close> as the argument of \<^verbatim>\<open>extend\<close>: a list gives its first items,
  a string its first characters, anything else cannot be sliced.\<close>

fun slice_items :: "pyval \<Rightarrow> int \<Rightarrow> py_error + pyval list" where
  "slice_items (PList xs) k = Inr (py_take k xs)"
| "slice_items (PStr s) k = Inr (map (\<lambda>c. PStr [c]) (py_take k s))"
| "slice_items v k = Inl TypeError"

text \<open>The first part of \<^verbatim>\<open>cross_validate_improvement\<close>: the test inputs.\<close>

definition build_test_inputs ::
  "env \<Rightarrow> string \<Rightarrow> int \<Rightarrow> nat \<Rightarrow> py_error + (pyval list \<times> nat)" where
  "build_test_inputs e user_input test_cases n =
     (if 1 < test_cases then
        let variations = get_llm_response_json e (Variations (test_cases - 1) user_input) n in
        if truthy variations then
          bindE (slice_items variations (test_cases - 1))
            (\<lambda>vs. Inr (PStr user_input # vs, Suc n))
        else Inr ([PStr user_input], Suc n)
      else Inr ([PStr user_input], n))"

text \<open>One side of a comparison: a response with the given prompt, and its score when
  there is a response; a failed critique counts as the score 0.\<close>

definition score_prompt ::
  "env \<Rightarrow> pydict list \<Rightarrow> string \<Rightarrow> pyval \<Rightarrow> pyval list \<Rightarrow> nat \<Rightarrow> py_error + (pyval list \<times> nat)" where
  "score_prompt e cih prompt test_input scores n =
     (let response = get_llm_response e (Generate prompt test_input) n in
      if truthy response then
        bindE (get_critique e cih prompt test_input (text_of response) (Suc n)) (\<lambda>critique.
        bindE (if truthy critique then py_get critique ''score'' (PInt 0) else Inr (PInt 0)) (\<lambda>s.
          Inr (scores @ [s], Suc (Suc n))))
      else Inr (scores, Suc n))"

text \<open>The loop over the test inputs.\<close>

fun cv_loop ::
  "env \<Rightarrow> pydict list \<Rightarrow> string \<Rightarrow> string \<Rightarrow> pyval list \<Rightarrow> pyval list \<Rightarrow> pyval list \<Rightarrow> nat
     \<Rightarrow> py_error + (pyval list \<times> pyval list \<times> nat)" where
  "cv_loop e cih old_prompt new_prompt [] old_scores new_scores n =
     Inr (old_scores, new_scores, n)"
| "cv_loop e cih old_prompt new_prompt (test_input # rest) old_scores new_scores n =
     bindE (score_prompt e cih old_prompt test_input old_scores n) (\<lambda>(old_scores', n1).
     bindE (score_prompt e cih new_prompt test_input new_scores n1) (\<lambda>(new_scores', n2).
       cv_loop e cih old_prompt new_prompt rest old_scores' new_scores' n2))"

text \<open>The last part: the confidence of the two score lists.\<close>

definition cv_confidence :: "pyval list \<Rightarrow> pyval list \<Rightarrow> py_error + real" where
  "cv_confidence old_scores new_scores =
     (if old_scores \<noteq> [] \<and> new_scores \<noteq> [] then
        bindE (nums old_scores) (\<lambda>olds.
        bindE (nums new_scores) (\<lambda>news.
          let old_avg = py_mean olds; new_avg = py_mean news;
              improvement = new_avg - old_avg
          in Inr (min 100 (max 0 (50 + improvement * 2)))))
      else Inr 50)"

definition cross_validate_improvement ::
  "env \<Rightarrow> pydict list \<Rightarrow> string \<Rightarrow> string \<Rightarrow> string \<Rightarrow> int \<Rightarrow> nat \<Rightarrow> py_error + (real \<times> nat)" where
  "cross_validate_improvement e cih old_prompt new_prompt user_input test_cases n =
     bindE (build_test_inputs e user_input test_cases n) (\<lambda>(test_inputs, n1).
     bindE (cv_loop e cih old_prompt new_prompt (py_take test_cases test_inputs) [] [] n1)
       (\<lambda>(old_scores, new_scores, n2).
     bindE (cv_confidence old_scores new_scores) (\<lambda>confidence. Inr (confidence, n2))))"

section \<open>The session state and the steps shared by the two controllers\<close>

text \<open>
  The instance fields \<^verbatim>\<open>history\<close>, \<^verbatim>\<open>critique_improvement_history\<close> and
  \<^verbatim>\<open>score_trends\<close>, the local variables of the run functions, and the number of
  oracle calls made so far. \<^verbatim>\<open>self.iteration_count\<close> is the counter argument of the
  loop functions below. \<^verbatim>\<open>meta_evaluation\<close> is \<^verbatim>\<open>None\<close> as long as it is not assigned
  (\<^verbatim>\<open>'meta_evaluation' in locals()\<close>).
\<close>

record session =
  history :: "pydict list"
  critique_improvement_history :: "pydict list"
  score_trends :: "int list"
  current_system_prompt :: string
  current_critique_prompt :: string
  current_score :: int
  best_score :: int
  iterations_without_improvement :: int
  meta_evaluation :: pyval
  calls :: nat

definition initial_session :: "string \<Rightarrow> string \<Rightarrow> session" where
  "initial_session initial_system_prompt initial_critique_prompt =
     \<lparr> history = [], critique_improvement_history = [], score_trends = [],
       current_system_prompt = initial_system_prompt,
       current_critique_prompt = initial_critique_prompt,
       current_score = 0, best_score = 0, iterations_without_improvement = 0,
       meta_evaluation = PNone, calls = 0 \<rparr>"

text \<open>How a run leaves its loop: one of the three \<^verbatim>\<open>break\<close>s, or the \<^verbatim>\<open>while\<close> test.
  \<open>BreakFailure\<close> is the spec's STOPPED_FAILURE and \<open>BreakEarlyStopping\<close> its
  STOPPED_NO_PROGRESS; the target is reported as met by \<open>BreakTargetAchieved\<close> and by
  a \<open>WhileExit\<close> with the score at the target (\<^verbatim>\<open>target_achieved\<close>).\<close>

datatype loop_exit = BreakFailure | BreakTargetAchieved | BreakEarlyStopping | WhileExit

text \<open>\<^verbatim>\<open>current_score = int(critique_data.get("score", 0))\<close>.\<close>

definition ingest_score :: "pyval \<Rightarrow> py_error + int" where
  "ingest_score critique_data = bindE (py_get critique_data ''score'' (PInt 0)) py_int"

text \<open>The detailed log line takes \<^verbatim>\<open>critique_text[:200]\<close> and \<^verbatim>\<open>len(critique_text)\<close>.\<close>

fun log_critique_preview :: "pyval \<Rightarrow> py_error + unit" where
  "log_critique_preview (PStr s) = Inr ()"
| "log_critique_preview (PList xs) = Inr ()"
| "log_critique_preview v = Inl TypeError"

text \<open>Best score and stagnation.\<close>

definition track_best :: "session \<Rightarrow> session" where
  "track_best st =
     (if best_score st < current_score st
      then st\<lparr>best_score := current_score st, iterations_without_improvement := 0\<rparr>
      else st\<lparr>iterations_without_improvement := iterations_without_improvement st + 1\<rparr>)"

section \<open>The basic controller\<close>

text \<open>The evaluation and revision of the critique prompt, lines 362 to 393 of
  \<^verbatim>\<open>run_dual_improvement\<close>.\<close>

definition evaluate_and_improve_critique ::
  "config \<Rightarrow> env \<Rightarrow> string \<Rightarrow> int \<Rightarrow> string \<Rightarrow> pyval \<Rightarrow> session \<Rightarrow> py_error + session" where
  "evaluate_and_improve_critique cfg e user_input it response critique_data st =
     (if \<not> ENABLE_CRITIQUE_IMPROVEMENT cfg then Inr st
      else if IMPROVE_CRITIQUE_EVERY cfg = 0 then Inl ZeroDivisionError
      else if \<not> (it mod IMPROVE_CRITIQUE_EVERY cfg = 0 \<or> it = 1) then Inr st
      else
        let meta = get_llm_response_json e
                     (MetaEvaluate (current_critique_prompt st) user_input
                        (current_system_prompt st) response critique_data) (calls st);
            st1 = st\<lparr>meta_evaluation := meta, calls := Suc (calls st)\<rparr>
        in
        if \<not> truthy meta then Inr st1
        else
          bindE (py_get meta ''meta_score'' (PInt 0)) (\<lambda>meta_score.
          bindE (py_get meta ''meta_critique'' (PStr ''No meta-critique provided''))
            (\<lambda>meta_critique.
          bindE (py_num meta_score) (\<lambda>ms.
            if ms < of_int (CRITIQUE_IMPROVEMENT_THRESHOLD cfg) then
              let improved = get_llm_response e
                               (RefineCritique (current_critique_prompt st1) meta) (calls st1);
                  st2 = st1\<lparr>calls := Suc (calls st1)\<rparr>
              in
              if truthy improved then
                Inr (st2\<lparr>critique_improvement_history :=
                            critique_improvement_history st2 @
                              [[(''iteration'', PInt it), (''meta_score'', meta_score),
                                (''meta_critique'', meta_critique),
                                (''old_critique_prompt'', PStr (current_critique_prompt st2)),
                                (''new_critique_prompt'', improved)]],
                          current_critique_prompt := text_of improved\<rparr>)
              else Inr st2
            else Inr st1))))"

text \<open>The early stopping conditions, lines 395 to 400: reaching the target only logs,
  stagnation breaks.\<close>

definition check_early_stopping :: "config \<Rightarrow> session \<Rightarrow> loop_exit option" where
  "check_early_stopping cfg st =
     (if TARGET_SCORE cfg \<le> current_score st then None
      else if EARLY_STOPPING_PATIENCE cfg \<le> iterations_without_improvement st
           then Some BreakEarlyStopping
      else None)"

text \<open>The revision of the system prompt, lines 402 to 412.\<close>

definition improve_system_prompt_step ::
  "config \<Rightarrow> env \<Rightarrow> int \<Rightarrow> pyval \<Rightarrow> session \<Rightarrow> session" where
  "improve_system_prompt_step cfg e it critique_text st =
     (if ENABLE_SYSTEM_PROMPT_IMPROVEMENT cfg \<and> current_score st < TARGET_SCORE cfg
         \<and> it < MAX_ITERATIONS cfg then
        let new_system_prompt =
              get_llm_response e (RefineSystem (current_system_prompt st) critique_text) (calls st);
            st1 = st\<lparr>calls := Suc (calls st)\<rparr>
        in if truthy new_system_prompt
           then st1\<lparr>current_system_prompt := text_of new_system_prompt\<rparr> else st1
      else st)"

text \<open>The history entry, lines 414 to 423.\<close>

definition iteration_record :: "int \<Rightarrow> pyval \<Rightarrow> pyval \<Rightarrow> session \<Rightarrow> pydict" where
  "iteration_record it response critique_text st =
     [(''iteration'', PInt it),
      (''system_prompt'', PStr (current_system_prompt st)),
      (''critique_prompt_used'', PStr (current_critique_prompt st)),
      (''response'', response),
      (''score'', PInt (current_score st)),
      (''critique'', critique_text),
      (''meta_evaluation'', meta_evaluation st)]"

text \<open>One pass of the \<^verbatim>\<open>while\<close> body, for the iteration count \<open>it\<close> (already
  incremented). The result says whether the body left the loop by a \<^verbatim>\<open>break\<close>.\<close>

definition basic_round ::
  "config \<Rightarrow> env \<Rightarrow> string \<Rightarrow> int \<Rightarrow> session \<Rightarrow> py_error + (loop_exit option \<times> session)" where
  "basic_round cfg e user_input it st =
     (let response = get_llm_response e
                       (Generate (current_system_prompt st) (PStr user_input)) (calls st);
          st1 = st\<lparr>calls := Suc (calls st)\<rparr>
      in
      if \<not> truthy response then Inr (Some BreakFailure, st1)
      else
        let critique_data = get_llm_response_json e
                              (Critique (PStr (current_critique_prompt st1)) (PStr user_input)
                                 (current_system_prompt st1) (text_of response)) (calls st1);
            st2 = st1\<lparr>calls := Suc (calls st1)\<rparr>
        in
        if \<not> truthy critique_data then Inr (Some BreakFailure, st2)
        else
          bindE (ingest_score critique_data) (\<lambda>score.
          bindE (py_get critique_data ''critique'' (PStr ''No critique provided''))
            (\<lambda>critique_text.
          bindE (if DETAILED_LOGGING cfg then log_critique_preview critique_text else Inr ())
            (\<lambda>logged.
          let st3 = track_best (st2\<lparr>current_score := score\<rparr>) in
          bindE (evaluate_and_improve_critique cfg e user_input it (text_of response)
                   critique_data st3) (\<lambda>st4.
            case check_early_stopping cfg st4 of
              Some x \<Rightarrow> Inr (Some x, st4)
            | None \<Rightarrow>
                let st5 = improve_system_prompt_step cfg e it critique_text st4 in
                Inr (None, st5\<lparr>history :=
                                  history st5 @ [iteration_record it response critique_text st5]\<rparr>))))))"

text \<open>The \<^verbatim>\<open>while\<close> loop of \<^verbatim>\<open>run_dual_improvement\<close>; the result is the exit taken,
  \<^verbatim>\<open>total_iterations\<close> and the state the returned dict is built from.\<close>

function basic_loop ::
  "config \<Rightarrow> env \<Rightarrow> string \<Rightarrow> int \<Rightarrow> session \<Rightarrow> py_error + (loop_exit \<times> int \<times> session)" where
  "basic_loop cfg e user_input it st =
     (if current_score st < TARGET_SCORE cfg \<and> it < MAX_ITERATIONS cfg then
        (case basic_round cfg e user_input (it + 1) st of
           Inl err \<Rightarrow> Inl err
         | Inr (Some x, st') \<Rightarrow> Inr (x, it + 1, st')
         | Inr (None, st') \<Rightarrow> basic_loop cfg e user_input (it + 1) st')
      else Inr (WhileExit, it, st))"
  by pat_completeness auto
termination
  by (relation "measure (\<lambda>(cfg, e, user_input, it, st). nat (MAX_ITERATIONS cfg - it))") auto

definition run_dual_improvement ::
  "config \<Rightarrow> env \<Rightarrow> string \<Rightarrow> string \<Rightarrow> string \<Rightarrow> py_error + (loop_exit \<times> int \<times> session)" where
  "run_dual_improvement cfg e user_input initial_system_prompt initial_critique_prompt =
     basic_loop cfg e user_input 0 (initial_session initial_system_prompt initial_critique_prompt)"

text \<open>\<^verbatim>\<open>target_achieved\<close> of the returned dict.\<close>

definition target_achieved :: "config \<Rightarrow> session \<Rightarrow> bool" where
  "target_achieved cfg st = (TARGET_SCORE cfg \<le> current_score st)"

section \<open>The enhanced controller\<close>

text \<open>The trigger of the critique evaluation, lines 347 to 356 of
  \<^verbatim>\<open>enhanced_run_dual_improvement\<close>; the block it guards only logs.\<close>

definition critique_evaluation_due :: "config \<Rightarrow> int \<Rightarrow> pydict \<Rightarrow> py_error + bool" where
  "critique_evaluation_due cfg it critique_validation =
     (if \<not> ENABLE_CRITIQUE_IMPROVEMENT cfg then Inr False
      else if IMPROVE_CRITIQUE_EVERY cfg = 0 then Inl ZeroDivisionError
      else if it mod IMPROVE_CRITIQUE_EVERY cfg = 0 \<or> it = 1 then Inr True
      else bindE (dict_index critique_validation ''is_valid'') (\<lambda>v. Inr (\<not> truthy v)))"

text \<open>The revision of the system prompt with cross-validation, lines 358 to 376.\<close>

definition improve_with_cross_validation ::
  "config \<Rightarrow> env \<Rightarrow> string \<Rightarrow> int \<Rightarrow> pyval \<Rightarrow> session \<Rightarrow> py_error + session" where
  "improve_with_cross_validation cfg e user_input it critique_text st =
     (if ENABLE_SYSTEM_PROMPT_IMPROVEMENT cfg \<and> current_score st < TARGET_SCORE cfg
         \<and> it < MAX_ITERATIONS cfg then
        let new_system_prompt =
              get_llm_response e (RefineSystem (current_system_prompt st) critique_text) (calls st);
            st1 = st\<lparr>calls := Suc (calls st)\<rparr>
        in
        if truthy new_system_prompt then
          bindE (cross_validate_improvement e (critique_improvement_history st1)
                   (current_system_prompt st1) (text_of new_system_prompt) user_input
                   (VALIDATION_ROUNDS cfg) (calls st1))
            (\<lambda>(improvement_confidence, n).
               if 60 \<le> improvement_confidence
               then Inr (st1\<lparr>current_system_prompt := text_of new_system_prompt, calls := n\<rparr>)
               else Inr (st1\<lparr>calls := n\<rparr>))
        else Inr st1
      else Inr st)"

text \<open>The history entry, lines 379 to 389; \<open>confidence\<close> is computed before the
  entry is appended.\<close>

definition enhanced_record ::
  "int \<Rightarrow> pyval \<Rightarrow> pyval \<Rightarrow> pydict \<Rightarrow> int \<Rightarrow> session \<Rightarrow> pydict" where
  "enhanced_record it response critique_text critique_validation confidence st =
     [(''iteration'', PInt it),
      (''system_prompt'', PStr (current_system_prompt st)),
      (''critique_prompt_used'', PStr (current_critique_prompt st)),
      (''response'', response),
      (''score'', PInt (current_score st)),
      (''critique'', critique_text),
      (''meta_evaluation'', PNone),
      (''critique_validation'', PDict critique_validation),
      (''confidence'', PInt confidence)]"

text \<open>The enhanced early stopping, lines 391 to 400.\<close>

definition enhanced_early_stopping :: "config \<Rightarrow> int \<Rightarrow> session \<Rightarrow> loop_exit option" where
  "enhanced_early_stopping cfg current_confidence st =
     (if TARGET_SCORE cfg \<le> current_score st \<and> CONFIDENCE_THRESHOLD cfg \<le> current_confidence
      then Some BreakTargetAchieved
      else if EARLY_STOPPING_PATIENCE cfg \<le> iterations_without_improvement st
           then Some BreakEarlyStopping
      else None)"

text \<open>One pass of the \<^verbatim>\<open>while\<close> body of \<^verbatim>\<open>enhanced_run_dual_improvement\<close>.\<close>

definition enhanced_round ::
  "config \<Rightarrow> env \<Rightarrow> string \<Rightarrow> int \<Rightarrow> session \<Rightarrow> py_error + (loop_exit option \<times> session)" where
  "enhanced_round cfg e user_input it st =
     (let response = get_llm_response e
                       (Generate (current_system_prompt st) (PStr user_input)) (calls st);
          st1 = st\<lparr>calls := Suc (calls st)\<rparr>
      in
      if \<not> truthy response then Inr (Some BreakFailure, st1)
      else
        let critique_data = get_llm_response_json e
                              (Critique (PStr (current_critique_prompt st1)) (PStr user_input)
                                 (current_system_prompt st1) (text_of response)) (calls st1);
            st2 = st1\<lparr>calls := Suc (calls st1)\<rparr>
        in
        if \<not> truthy critique_data then Inr (Some BreakFailure, st2)
        else
          bindE (ingest_score critique_data) (\<lambda>score.
          bindE (py_get critique_data ''critique'' (PStr ''No critique provided''))
            (\<lambda>critique_text.
          bindE (validate_critique_quality cfg (history st2 @ [[(''score'', PInt score)]]))
            (\<lambda>critique_validation.
          let st3 = track_best (st2\<lparr>current_score := score,
                                     score_trends := score_trends st2 @ [score]\<rparr>) in
          bindE (critique_evaluation_due cfg it critique_validation) (\<lambda>due.
          bindE (improve_with_cross_validation cfg e user_input it critique_text st3) (\<lambda>st4.
          bindE (calculate_final_confidence cfg (history st4) (critique_improvement_history st4))
            (\<lambda>confidence.
          let st5 = st4\<lparr>history :=
                          history st4 @ [enhanced_record it response critique_text
                                           critique_validation confidence st4]\<rparr> in
          bindE (calculate_final_confidence cfg (history st5) (critique_improvement_history st5))
            (\<lambda>current_confidence.
            Inr (enhanced_early_stopping cfg current_confidence st5, st5)))))))))"

text \<open>The \<^verbatim>\<open>while\<close> loop of \<^verbatim>\<open>enhanced_run_dual_improvement\<close>; its test evaluates
  \<^verbatim>\<open>calculate_final_confidence\<close> when the first two conjuncts hold.\<close>

function enhanced_loop ::
  "config \<Rightarrow> env \<Rightarrow> string \<Rightarrow> int \<Rightarrow> session \<Rightarrow> py_error + (loop_exit \<times> int \<times> session)" where
  "enhanced_loop cfg e user_input it st =
     (if current_score st < TARGET_SCORE cfg \<and> it < MAX_ITERATIONS cfg then
        (case calculate_final_confidence cfg (history st) (critique_improvement_history st) of
           Inl err \<Rightarrow> Inl err
         | Inr c \<Rightarrow>
             if c < CONFIDENCE_THRESHOLD cfg then
               (case enhanced_round cfg e user_input (it + 1) st of
                  Inl err \<Rightarrow> Inl err
                | Inr (Some x, st') \<Rightarrow> Inr (x, it + 1, st')
                | Inr (None, st') \<Rightarrow> enhanced_loop cfg e user_input (it + 1) st')
             else Inr (WhileExit, it, st))
      else Inr (WhileExit, it, st))"
  by pat_completeness auto
termination
  by (relation "measure (\<lambda>(cfg, e, user_input, it, st). nat (MAX_ITERATIONS cfg - it))") auto

text \<open>The run: the loop, then the final confidence for the returned dict.\<close>

definition enhanced_run_dual_improvement ::
  "config \<Rightarrow> env \<Rightarrow> string \<Rightarrow> string \<Rightarrow> string
     \<Rightarrow> py_error + (loop_exit \<times> int \<times> session \<times> int)" where
  "enhanced_run_dual_improvement cfg e user_input initial_system_prompt initial_critique_prompt =
     bindE (enhanced_loop cfg e user_input 0
              (initial_session initial_system_prompt initial_critique_prompt))
       (\<lambda>(x, it, st).
     bindE (calculate_final_confidence cfg (history st) (critique_improvement_history st))
       (\<lambda>final_confidence. Inr (x, it, st, final_confidence)))"

section \<open>The formulas of the specification\<close>

text \<open>The confidence aggregate as the specification words it: the rubric-quality
  component is \<open>min(100, lastMetaScore + 10)\<close> if a rubric improvement has occurred
  (\<open>Some\<close> of its meta-score) and 0 otherwise.\<close>

definition spec_rubric_quality :: "real option \<Rightarrow> real" where
  "spec_rubric_quality last_meta =
     (case last_meta of None \<Rightarrow> 0 | Some m \<Rightarrow> min 100 (m + 10))"

definition spec_target_achievement :: "real \<Rightarrow> real \<Rightarrow> real" where
  "spec_target_achievement final_score target =
     (if target \<le> final_score then 100 else 100 * final_score / target)"

definition spec_aggregate :: "real \<Rightarrow> real \<Rightarrow> real \<Rightarrow> real option \<Rightarrow> int" where
  "spec_aggregate final_score target stability last_meta =
     py_round (0.4 * spec_target_achievement final_score target + 0.3 * stability
               + 0.3 * spec_rubric_quality last_meta)"

definition clamp :: "real \<Rightarrow> real \<Rightarrow> real \<Rightarrow> real" where
  "clamp x lo hi = max lo (min hi x)"

definition mean :: "real list \<Rightarrow> real" where
  "mean xs = sum_list xs / real (length xs)"






text \<open>The values the validator reads from the trailing window, the report for a
  history that is too short, and a report whose numbers are rounded.\<close>

definition recent_values :: "config \<Rightarrow> string \<Rightarrow> pydict list \<Rightarrow> pyval list" where
  "recent_values cfg key critique_history =
     map (\<lambda>h. dict_get h key (PInt 0))
       (py_slice_last (CRITIQUE_STABILITY_WINDOW cfg) critique_history)"



section \<open>Observations and example oracles\<close>


definition recorded_prompts :: "session \<Rightarrow> (pyval \<times> pyval) list" where
  "recorded_prompts st =
     map (\<lambda>h. (dict_get h ''system_prompt'' PNone, dict_get h ''critique_prompt_used'' PNone))
       (history st)"

text \<open>Responses are generated, every critique is a record without a score, all other
  calls fail.\<close>

definition oracle_missing_score :: env where
  "oracle_missing_score =
     \<lparr> text_reply = (\<lambda>r n. case r of Generate p u \<Rightarrow> Some ''resp'' | _ \<Rightarrow> None),
       json_reply = (\<lambda>r n. case r of
                        Critique c u p a \<Rightarrow> PDict [(''critique'', PStr ''fine'')]
                      | _ \<Rightarrow> PNone),
       critique_file = Some ''R'' \<rparr>"

text \<open>The critique record carries the score \<^verbatim>\<open>"high"\<close>.\<close>

definition oracle_word_score :: env where
  "oracle_word_score =
     \<lparr> text_reply = (\<lambda>r n. case r of Generate p u \<Rightarrow> Some ''resp'' | _ \<Rightarrow> None),
       json_reply = (\<lambda>r n. case r of
                        Critique c u p a \<Rightarrow>
                          PDict [(''score'', PStr ''high''), (''critique'', PStr ''fine'')]
                      | _ \<Rightarrow> PNone),
       critique_file = Some ''R'' \<rparr>"

text \<open>A revised system prompt is proposed, and the variations come back as the JSON
  number 5.\<close>

definition oracle_number_variations :: env where
  "oracle_number_variations =
     \<lparr> text_reply = (\<lambda>r n. case r of
                        Generate p u \<Rightarrow> Some ''resp''
                      | RefineSystem p c \<Rightarrow> Some ''S2''
                      | _ \<Rightarrow> None),
       json_reply = (\<lambda>r n. case r of
                        Critique c u p a \<Rightarrow>
                          PDict [(''score'', PInt 50), (''critique'', PStr ''fine'')]
                      | Variations k u \<Rightarrow> PInt 5
                      | _ \<Rightarrow> PNone),
       critique_file = Some ''R'' \<rparr>"

text \<open>An oracle that answers only for the prompts it is given: responses for the
  system prompts \<open>S1\<close> and \<open>S2\<close>, critiques under the critique prompt \<open>R1\<close> (50 for
  \<open>S1\<close>, 90 for \<open>S2\<close>), the meta-score 60, and the revisions \<open>R2\<close> and \<open>S2\<close>.\<close>

definition oracle_revising :: env where
  "oracle_revising =
     \<lparr> text_reply = (\<lambda>r n. case r of
                        Generate p u \<Rightarrow>
                          if p = ''S1'' then Some ''resp1''
                          else if p = ''S2'' then Some ''resp2'' else None
                      | RefineCritique c m \<Rightarrow> Some ''R2''
                      | RefineSystem p c \<Rightarrow> Some ''S2''
                      | _ \<Rightarrow> None),
       json_reply = (\<lambda>r n. case r of
                        Critique c u p a \<Rightarrow>
                          if c = PStr ''R1'' \<and> p = ''S1''
                          then PDict [(''score'', PInt 50), (''critique'', PStr ''fine'')]
                          else if c = PStr ''R1'' \<and> p = ''S2''
                          then PDict [(''score'', PInt 90), (''critique'', PStr ''fine'')]
                          else PNone
                      | MetaEvaluate c u p a d \<Rightarrow> PDict [(''meta_score'', PInt 60)]
                      | _ \<Rightarrow> PNone),
       critique_file = Some ''R1'' \<rparr>"

text \<open>A revised system prompt is proposed and every other call fails, so that no
  comparison of the cross-validator yields a response.\<close>

definition oracle_no_samples :: env where
  "oracle_no_samples =
     \<lparr> text_reply = (\<lambda>r n. case r of RefineSystem p c \<Rightarrow> Some ''S2'' | _ \<Rightarrow> None),
       json_reply = (\<lambda>r n. PNone),
       critique_file = Some ''R1'' \<rparr>"

text \<open>Two test inputs (the base input and one variation); every response under the
  proposed prompt \<open>S2\<close> scores 40, every other response 50.\<close>

definition oracle_worse :: env where
  "oracle_worse =
     \<lparr> text_reply = (\<lambda>r n. case r of
                        Generate p u \<Rightarrow> Some ''resp''
                      | RefineSystem p c \<Rightarrow> Some ''S2''
                      | _ \<Rightarrow> None),
       json_reply = (\<lambda>r n. case r of
                        Critique c u p a \<Rightarrow>
                          if p = ''S2'' then PDict [(''score'', PInt 40)]
                          else PDict [(''score'', PInt 50)]
                      | Variations k u \<Rightarrow> PList [PStr ''variant'']
                      | _ \<Rightarrow> PNone),
       critique_file = Some ''R1'' \<rparr>"




text \<open>The response and the critique a round asks the oracle for.\<close>

definition round_response :: "env \<Rightarrow> string \<Rightarrow> session \<Rightarrow> pyval" where
  "round_response e user_input st =
     get_llm_response e (Generate (current_system_prompt st) (PStr user_input)) (calls st)"

definition round_critique :: "env \<Rightarrow> string \<Rightarrow> session \<Rightarrow> pyval" where
  "round_critique e user_input st =
     get_llm_response_json e
       (Critique (PStr (current_critique_prompt st)) (PStr user_input) (current_system_prompt st)
          (text_of (get_llm_response e (Generate (current_system_prompt st) (PStr user_input))
                      (calls st))))
       (Suc (calls st))"

text \<open>The meta-evaluation the basic round asks for when it is due.\<close>

definition round_meta_evaluation :: "env \<Rightarrow> string \<Rightarrow> session \<Rightarrow> pyval" where
  "round_meta_evaluation e user_input st =
     get_llm_response_json e
       (MetaEvaluate (current_critique_prompt st) user_input (current_system_prompt st)
          (text_of (round_response e user_input st)) (round_critique e user_input st))
       (Suc (Suc (calls st)))"

text \<open>A rubric improvement history stays as it is, or grows by one record whose
  meta-score is the one of the meta-evaluation record (0 if that record has none).\<close>

definition meta_score_as_returned :: "pyval \<Rightarrow> pydict list \<Rightarrow> pydict list \<Rightarrow> bool" where
  "meta_score_as_returned meta old new =
     (new = old
      \<or> (case meta of
            PDict m \<Rightarrow>
              new = old @ [last new]
              \<and> dict_get (last new) ''meta_score'' PNone = dict_get m ''meta_score'' (PInt 0)
          | _ \<Rightarrow> False))"



definition oracle_score_100 :: env where
  "oracle_score_100 =
     \<lparr> text_reply = (\<lambda>r n. case r of Generate p u \<Rightarrow> Some ''resp'' | _ \<Rightarrow> None),
       json_reply = (\<lambda>r n. case r of
                        Critique c u p a \<Rightarrow>
                          PDict [(''score'', PInt 100), (''critique'', PStr ''fine'')]
                      | _ \<Rightarrow> PNone),
       critique_file = Some ''R'' \<rparr>"

text \<open>A session in its fourth round: three rounds recorded, one rubric improvement
  with meta-score 90, a best score of 100 and two rounds without improvement.\<close>

definition stagnant_session :: session where
  "stagnant_session =
     \<lparr> history = [[(''score'', PInt 64)], [(''score'', PInt 76)], [(''score'', PInt 88)]],
       critique_improvement_history = [[(''meta_score'', PInt 90)]], score_trends = [],
       current_system_prompt = ''S'', current_critique_prompt = ''R'',
       current_score = 88, best_score = 100, iterations_without_improvement = 2,
       meta_evaluation = PNone, calls = 0 \<rparr>"

text \<open>The records the enhanced loop appends: no \<open>meta_score\<close> key and an integer
  score. The history a run returns.\<close>

fun is_int :: "pyval \<Rightarrow> bool" where
  "is_int (PInt i) = True"
| "is_int v = False"

definition loop_record :: "pydict \<Rightarrow> bool" where
  "loop_record h = (map_of h ''meta_score'' = None \<and> is_int (dict_get h ''score'' PNone))"

definition run_history :: "py_error + (loop_exit \<times> int \<times> session \<times> int) \<Rightarrow> pydict list" where
  "run_history r = (case r of Inl err \<Rightarrow> [] | Inr (x, it, st, c) \<Rightarrow> history st)"

section \<open>Evaluation rules\<close>

lemma bindE_Inr [simp]: "bindE (Inr x) f = f x"
  by (simp add: bindE_def)

lemma bindE_Inl [simp]: "bindE (Inl e) f = Inl e"
  by (simp add: bindE_def)

lemmas basic_eval =
  run_dual_improvement_def basic_round_def get_llm_response_def get_llm_response_json_def
  ingest_score_def dict_get_def track_best_def evaluate_and_improve_critique_def
  check_early_stopping_def improve_system_prompt_step_def iteration_record_def Let_def
  initial_session_def int_of_str_def strip_def is_space_def is_digit_def digit_val_def

lemmas confidence_eval =
  calculate_final_confidence_def validate_critique_quality_def py_slice_last_def
  dict_get_def dict_index_def py_stdev_def py_mean_def py_round_def Let_def

lemmas cross_eval =
  cross_validate_improvement_def build_test_inputs_def cv_confidence_def score_prompt_def
  get_critique_def py_take_def py_mean_def get_llm_response_def get_llm_response_json_def

lemmas enhanced_eval =
  enhanced_run_dual_improvement_def enhanced_round_def get_llm_response_def
  get_llm_response_json_def ingest_score_def track_best_def critique_evaluation_due_def
  improve_with_cross_validation_def enhanced_record_def enhanced_early_stopping_def
  initial_session_def

section \<open>Numbers in score lists\<close>

lemma nums_length: "nums vs = Inr xs \<Longrightarrow> length xs = length vs"
proof (induction vs arbitrary: xs)
  case Nil
  then show ?case by simp
next
  case (Cons v vs)
  then show ?case
    by (auto simp: bindE_def split: sum.splits)
qed

lemma nums_Nil_iff: "nums vs = Inr xs \<Longrightarrow> (xs = []) = (vs = [])"
  using nums_length by fastforce

lemma nums_map_PInt: "nums (map PInt xs) = Inr (map of_int xs)"
  by (induction xs) simp_all

lemma sum_list_strict_mono:
  fixes xs ys :: "real list"
  assumes "list_all2 (<) xs ys" and "ys \<noteq> []"
  shows "sum_list xs < sum_list ys"
  using assms
proof (induction rule: list_all2_induct)
  case Nil
  then show ?case by simp
next
  case (Cons x xs y ys)
  show ?case
  proof (cases "ys = []")
    case True
    with Cons show ?thesis by simp
  next
    case False
    with Cons show ?thesis by simp
  qed
qed

lemma mean_strict_mono:
  assumes "list_all2 (<) xs ys" and "ys \<noteq> []"
  shows "mean xs < mean ys"
proof -
  have len: "length xs = length ys" using assms(1) by (rule list_all2_lengthD)
  have pos: "0 < real (length ys)" using assms(2) by simp
  from sum_list_strict_mono[OF assms] show ?thesis
    unfolding mean_def len using pos by (simp add: divide_strict_right_mono)
qed

lemma cv_confidence_nums:
  assumes "nums old_scores = Inr os" and "nums new_scores = Inr ns"
  shows "cv_confidence old_scores new_scores =
           Inr (if os \<noteq> [] \<and> ns \<noteq> [] then clamp (50 + 2 * (mean ns - mean os)) 0 100 else 50)"
proof -
  have c: "min 100 (max 0 (50 + d * 2)) = clamp (50 + 2 * d) 0 100" for d :: real
    by (auto simp: clamp_def min_def max_def)
  have m: "py_mean xs = mean xs" for xs
    by (simp add: py_mean_def mean_def)
  show ?thesis
    using assms nums_Nil_iff[OF assms(1)] nums_Nil_iff[OF assms(2)]
    by (simp add: cv_confidence_def Let_def c m)
qed

lemma clamp_below:
  assumes "d < 0" shows "clamp (50 + 2 * d) 0 100 < 60"
  using assms by (simp add: clamp_def min_def max_def)

lemma cross_validate_result:
  assumes "build_test_inputs e user_input test_cases n = Inr (test_inputs, n1)"
    and "cv_loop e cih old_prompt new_prompt (py_take test_cases test_inputs) [] [] n1
           = Inr (old_scores, new_scores, n2)"
    and "nums old_scores = Inr os" and "nums new_scores = Inr ns"
  shows "cross_validate_improvement e cih old_prompt new_prompt user_input test_cases n =
           Inr (if os \<noteq> [] \<and> ns \<noteq> [] then clamp (50 + 2 * (mean ns - mean os)) 0 100 else 50,
                n2)"
  using assms(1,2) cv_confidence_nums[OF assms(3,4)]
  by (simp add: cross_validate_improvement_def)

section \<open>The validator on numbers\<close>





lemma sqrt_144: "sqrt 144 = 12"
  by (rule real_sqrt_unique) simp_all

section \<open>What the steps of a round change\<close>

lemma track_best_keeps [simp]:
  "current_score (track_best st) = current_score st"
  "history (track_best st) = history st"
  "critique_improvement_history (track_best st) = critique_improvement_history st"
  "current_system_prompt (track_best st) = current_system_prompt st"
  "current_critique_prompt (track_best st) = current_critique_prompt st"
  "calls (track_best st) = calls st"
  by (simp_all add: track_best_def)

lemma evaluate_keeps:
  assumes "evaluate_and_improve_critique cfg e ui it r cd st = Inr st'"
  shows "current_score st' = current_score st \<and> history st' = history st
         \<and> best_score st' = best_score st
         \<and> iterations_without_improvement st' = iterations_without_improvement st"
  using assms
  by (auto simp: evaluate_and_improve_critique_def Let_def bindE_def
      split: if_splits sum.splits)

lemma improve_step_keeps [simp]:
  "current_score (improve_system_prompt_step cfg e it ct st) = current_score st"
  "history (improve_system_prompt_step cfg e it ct st) = history st"
  "critique_improvement_history (improve_system_prompt_step cfg e it ct st)
     = critique_improvement_history st"
  by (simp_all add: improve_system_prompt_step_def Let_def)

lemma improve_cv_keeps:
  assumes "improve_with_cross_validation cfg e ui it ct st = Inr st'"
  shows "current_score st' = current_score st \<and> history st' = history st
         \<and> critique_improvement_history st' = critique_improvement_history st
         \<and> best_score st' = best_score st
         \<and> iterations_without_improvement st' = iterations_without_improvement st"
  using assms
  by (auto simp: improve_with_cross_validation_def Let_def bindE_def
      split: if_splits sum.splits prod.splits)

lemma evaluate_meta:
  assumes "evaluate_and_improve_critique cfg e ui it r cd st = Inr st'"
  shows "meta_score_as_returned
           (get_llm_response_json e
              (MetaEvaluate (current_critique_prompt st) ui (current_system_prompt st) r cd)
              (calls st))
           (critique_improvement_history st) (critique_improvement_history st')"
proof (cases "get_llm_response_json e
                (MetaEvaluate (current_critique_prompt st) ui (current_system_prompt st) r cd)
                (calls st)")
  case (PDict m)
  with assms show ?thesis
    by (auto simp: evaluate_and_improve_critique_def Let_def bindE_def dict_get_def
        meta_score_as_returned_def split: if_splits sum.splits)
qed (use assms in \<open>auto simp: evaluate_and_improve_critique_def Let_def bindE_def
        meta_score_as_returned_def split: if_splits sum.splits\<close>)

lemma evaluate_effect:
  assumes "evaluate_and_improve_critique cfg e ui it r cd st = Inr st'"
  shows "current_score st' = current_score st \<and> history st' = history st
         \<and> best_score st' = best_score st
         \<and> iterations_without_improvement st' = iterations_without_improvement st
         \<and> meta_score_as_returned
              (get_llm_response_json e
                 (MetaEvaluate (current_critique_prompt st) ui (current_system_prompt st) r cd)
                 (calls st))
              (critique_improvement_history st) (critique_improvement_history st')"
  using evaluate_keeps[OF assms] evaluate_meta[OF assms] by simp

lemma basic_round_cases:
  assumes "basic_round cfg e ui it st = Inr (x, st')"
  shows "(\<not> (truthy (round_response e ui st) \<and> truthy (round_critique e ui st))
            \<and> x = Some BreakFailure \<and> current_score st' = current_score st
            \<and> history st' = history st
            \<and> critique_improvement_history st' = critique_improvement_history st)
         \<or> (truthy (round_response e ui st) \<and> truthy (round_critique e ui st)
             \<and> ingest_score (round_critique e ui st) = Inr (current_score st')
             \<and> meta_score_as_returned (round_meta_evaluation e ui st)
                  (critique_improvement_history st) (critique_improvement_history st')
             \<and> (x = Some BreakEarlyStopping \<and> current_score st' < TARGET_SCORE cfg
                   \<and> history st' = history st
                 \<or> x = None \<and> (\<exists>h. history st' = history st @ [h]
                      \<and> map_of h ''score'' = Some (PInt (current_score st')))))"
  using assms
  by (auto simp: basic_round_def Let_def round_critique_def round_response_def bindE_def
      check_early_stopping_def iteration_record_def round_meta_evaluation_def
      split: if_splits sum.splits option.splits
      dest!: evaluate_effect)

lemma enhanced_round_cases:
  assumes "enhanced_round cfg e ui it st = Inr (x, st')"
  shows "(\<not> (truthy (round_response e ui st) \<and> truthy (round_critique e ui st))
            \<and> x = Some BreakFailure \<and> current_score st' = current_score st
            \<and> history st' = history st
            \<and> critique_improvement_history st' = critique_improvement_history st)
         \<or> (truthy (round_response e ui st) \<and> truthy (round_critique e ui st)
             \<and> ingest_score (round_critique e ui st) = Inr (current_score st')
             \<and> critique_improvement_history st' = critique_improvement_history st
             \<and> (\<exists>h. history st' = history st @ [h]
                   \<and> map_of h ''score'' = Some (PInt (current_score st'))
                   \<and> map_of h ''meta_score'' = None)
             \<and> (\<exists>c. calculate_final_confidence cfg (history st')
                        (critique_improvement_history st') = Inr c
                   \<and> x = enhanced_early_stopping cfg c st'))"
  using assms
  by (auto simp: enhanced_round_def Let_def round_critique_def round_response_def bindE_def
      enhanced_record_def
      split: if_splits sum.splits
      dest!: improve_cv_keeps)

lemma stagnant_basic_round:
  "map_sum id (map_prod id (\<lambda>st. (current_score st, iterations_without_improvement st)))
     (basic_round default_config oracle_score_100 ''input'' 4 stagnant_session)
     = Inr (None, 100, 3)"
  by (simp add: basic_eval oracle_score_100_def default_config_def stagnant_session_def)

lemma stagnant_start_confidence:
  "calculate_final_confidence default_config (history stagnant_session)
     (critique_improvement_history stagnant_session) = Inr 88"
  by (simp add: confidence_eval default_config_def stagnant_session_def sqrt_144)

lemma stagnant_enhanced_round:
  "map_sum id (map_prod id (\<lambda>st. (current_score st, iterations_without_improvement st,
       calculate_final_confidence default_config (history st) (critique_improvement_history st))))
     (enhanced_round default_config oracle_score_100 ''input'' 4 stagnant_session)
     = Inr (Some BreakTargetAchieved, 100, 3, Inr 91)"
  by (simp add: enhanced_eval confidence_eval oracle_score_100_def default_config_def
      stagnant_session_def sqrt_144)

section \<open>Histories of the enhanced loop\<close>

lemma py_round_le:
  assumes "x \<le> of_int n" shows "py_round x \<le> n"
proof (cases "x = of_int n")
  case True
  then show ?thesis by (simp add: py_round_def)
next
  case False
  with assms have "x < of_int n" by simp
  then have "\<lfloor>x\<rfloor> < n" by (simp add: floor_less_iff)
  then show ?thesis by (simp add: py_round_def Let_def)
qed

lemma py_round_zero: "py_round 0 = 0"
  by (simp add: py_round_def)

lemma py_stdev_nonneg: "0 \<le> py_stdev xs"
  by (auto simp: py_stdev_def intro!: divide_nonneg_nonneg sum_list_nonneg)

lemma loop_record_score:
  assumes "loop_record h"
  shows "\<exists>s. dict_get h ''score'' (PInt 0) = PInt s"
proof (cases "map_of h ''score''")
  case None
  then show ?thesis by (simp add: dict_get_def)
next
  case (Some v)
  with assms have "is_int v" by (simp add: loop_record_def dict_get_def)
  then obtain s where "v = PInt s" by (cases v) auto
  with Some show ?thesis by (simp add: dict_get_def)
qed

lemma loop_record_scores:
  assumes "list_all loop_record rs"
  shows "\<exists>xs. map (\<lambda>h. dict_get h ''score'' (PInt 0)) rs = map PInt xs"
  using assms
proof (induction rs)
  case Nil
  then show ?case by simp
next
  case (Cons h rs)
  then obtain xs where "map (\<lambda>h. dict_get h ''score'' (PInt 0)) rs = map PInt xs" by auto
  moreover from Cons.prems loop_record_score obtain s where
    "dict_get h ''score'' (PInt 0) = PInt s" by auto
  ultimately have "map (\<lambda>h. dict_get h ''score'' (PInt 0)) (h # rs) = map PInt (s # xs)"
    by simp
  then show ?case by blast
qed

lemma loop_record_meta_scores:
  assumes "list_all loop_record rs"
  shows "map (\<lambda>h. dict_get h ''meta_score'' (PInt 0)) rs = map PInt (replicate (length rs) 0)"
  using assms by (induction rs) (auto simp: loop_record_def dict_get_def)

lemma mean_zeros: "py_mean (map of_int (replicate n 0)) = 0"
proof -
  have "sum_list (map of_int (replicate n 0)) = (0::real)"
    by (induction n) simp_all
  then show ?thesis by (simp add: py_mean_def)
qed

lemma validate_loop_records:
  assumes recs: "list_all loop_record hs"
    and len: "2 \<le> length hs"
    and thr: "0 < CRITIQUE_IMPROVEMENT_THRESHOLD cfg"
  shows "\<exists>report k. validate_critique_quality cfg hs = Inr report
           \<and> map_of report ''meta_stability'' = Some (PInt 0)
           \<and> map_of report ''confidence'' = Some (PInt k) \<and> k \<le> 80"
proof -
  let ?rs = "py_slice_last (CRITIQUE_STABILITY_WINDOW cfg) hs"
  have "set ?rs \<subseteq> set hs"
    by (auto simp: py_slice_last_def dest: in_set_dropD)
  with recs have rrecs: "list_all loop_record ?rs"
    by (auto simp: list_all_iff)
  from loop_record_scores[OF rrecs] obtain xs where
    scores: "recent_values cfg ''score'' hs = map PInt xs"
    by (auto simp: recent_values_def)
  define zs :: "int list" where "zs = replicate (length ?rs) 0"
  from loop_record_meta_scores[OF rrecs] have
    metas: "recent_values cfg ''meta_score'' hs = map PInt zs"
    by (simp add: recent_values_def zs_def)
  define S where "S = (if 1 < length xs then py_stdev (map of_int xs) else 0)"
  define T where "T = (if 2 \<le> length xs
                       then max 0 (min 100 (50 + (of_int (last xs) - of_int (hd xs)) * 2))
                       else (50::real))"
  define conf where "conf = max 0 (100 - S * 2) * 0.4 + T * 0.4 + 0 * 0.2"
  have s1: "(if 1 < length (map PInt xs)
              then bindE (nums (map PInt xs)) (\<lambda>xs. Inr (py_stdev xs)) else Inr 0) = Inr S"
    by (simp add: nums_map_PInt S_def)
  have s2: "(if 2 \<le> length (map PInt xs)
              then bindE (py_num (last (map PInt xs))) (\<lambda>l.
                   bindE (py_num (hd (map PInt xs))) (\<lambda>f.
                     Inr (max 0 (min 100 (50 + (l - f) * 2)))))
              else Inr 50) = Inr T"
    by (cases xs) (auto simp: T_def last_map hd_map)
  have s3: "(if map PInt zs \<noteq> []
              then bindE (nums (map PInt zs)) (\<lambda>ms. Inr (py_mean ms)) else Inr 0) = Inr 0"
  proof -
    have "py_mean (map of_int zs) = 0" unfolding zs_def by (rule mean_zeros)
    then show ?thesis by (simp add: nums_map_PInt)
  qed
  have m: "(if real_of_int (CRITIQUE_IMPROVEMENT_THRESHOLD cfg) \<le> 0 then 100 else 0) = (0::real)"
    using thr by simp
  have v: "validate_critique_quality cfg hs =
             Inr [(''is_valid'', PBool (70 \<le> conf)), (''confidence'', PInt (py_round conf)),
                  (''consistency_score'', PInt (py_round (max 0 (100 - S * 2)))),
                  (''trend_score'', PInt (py_round T)),
                  (''meta_stability'', PInt (py_round 0)),
                  (''reason'', PStr ''Confidence'')]"
    unfolding validate_critique_quality_def Let_def recent_values_def[symmetric] scores metas
      s1 s2 s3 bindE_Inr m conf_def
    using len by simp
  have "0 \<le> S" by (simp add: S_def py_stdev_nonneg)
  then have c: "max 0 (100 - S * 2) \<le> 100" by simp
  have t: "T \<le> 100" by (simp add: T_def)
  have "a * 0.4 + b * 0.4 + 0 * 0.2 \<le> 80" if "a \<le> 100" "b \<le> 100" for a b :: real
    using that by simp
  from this[OF c t] have "conf \<le> 80" by (simp only: conf_def)
  then have "py_round conf \<le> 80" using py_round_le[of conf 80] by simp
  with v show ?thesis by (simp add: py_round_zero)
qed

lemma enhanced_round_records:
  assumes "enhanced_round cfg e ui it st = Inr (x, st')"
    and "list_all loop_record (history st)"
  shows "list_all loop_record (history st')"
  using enhanced_round_cases[OF assms(1)] assms(2)
  by (auto simp: loop_record_def dict_get_def)

lemma enhanced_loop_records:
  assumes "enhanced_loop cfg e ui it st = Inr (x, it', st')"
    and "list_all loop_record (history st)"
  shows "list_all loop_record (history st')"
  using assms
proof (induction cfg e ui it st rule: enhanced_loop.induct)
  case (1 cfg e ui it st)
  show ?case
  proof (cases "current_score st < TARGET_SCORE cfg \<and> it < MAX_ITERATIONS cfg")
    case False
    with "1.prems" show ?thesis
      by (subst (asm) enhanced_loop.simps) auto
  next
    case cond: True
    show ?thesis
    proof (cases "calculate_final_confidence cfg (history st) (critique_improvement_history st)")
      case (Inl err)
      with cond "1.prems" show ?thesis
        by (subst (asm) enhanced_loop.simps) auto
    next
      case (Inr c)
      show ?thesis
      proof (cases "c < CONFIDENCE_THRESHOLD cfg")
        case False
        with cond Inr "1.prems" show ?thesis
          by (subst (asm) enhanced_loop.simps) auto
      next
        case thr: True
        show ?thesis
        proof (cases "enhanced_round cfg e ui (it + 1) st")
          case (Inl err)
          with cond Inr thr "1.prems" show ?thesis
            by (subst (asm) enhanced_loop.simps) auto
        next
          case r: (Inr p)
          obtain y st1 where p: "p = (y, st1)" by (cases p)
          from enhanced_round_records[OF r[unfolded p] "1.prems"(2)]
          have recs: "list_all loop_record (history st1)" .
          show ?thesis
          proof (cases y)
            case None
            with cond Inr thr r p "1.prems"(1)
            have "enhanced_loop cfg e ui (it + 1) st1 = Inr (x, it', st')"
              by (subst (asm) enhanced_loop.simps) auto
            from "1.IH"[OF cond Inr thr r p[symmetric] None this recs] show ?thesis .
          next
            case (Some z)
            with cond Inr thr r p "1.prems"(1) have "st' = st1"
              by (subst (asm) enhanced_loop.simps) auto
            with recs show ?thesis by simp
          qed
        qed
      qed
    qed
  qed
qed

lemma unscored_enhanced_run:
  "map_sum id (\<lambda>(x, it, st, c). (x, it, length (history st), c))
     (enhanced_run_dual_improvement default_config oracle_missing_score ''input'' ''S'' ''R'')
     = Inr (BreakEarlyStopping, 3, 3, 21)"
  by (simp add: enhanced_eval confidence_eval oracle_missing_score_def default_config_def)

section \<open>The iteration record stores the revised artifacts\<close>

text \<open>
  C2. The claim is that the record appended at the end of a round stores the system
  prompt and the critique prompt that generated and scored the round's response. The
  source appends the record after both revisions. Under \<open>oracle_revising\<close>, which
  generates a response only for \<open>S1\<close> or \<open>S2\<close> and scores only under \<open>R1\<close>, the first
  round of the basic controller starts from \<open>S1\<close> and \<open>R1\<close> and records \<open>S2\<close> and
  \<open>R2\<close>; the first round of the enhanced controller records the accepted \<open>S2\<close>.
\<close>

theorem record_stores_revised_prompts:
  "map_sum id (map_prod id recorded_prompts)
     (basic_round default_config oracle_revising ''input'' 1 (initial_session ''S1'' ''R1''))
     = Inr (None, [(PStr ''S2'', PStr ''R2'')])
   \<and> map_sum id (map_prod id recorded_prompts)
       (enhanced_round default_config oracle_revising ''input'' 1 (initial_session ''S1'' ''R1''))
     = Inr (None, [(PStr ''S2'', PStr ''R1'')])"
  by (simp add: basic_eval enhanced_eval cross_eval confidence_eval oracle_revising_def
      default_config_def recorded_prompts_def)

section \<open>The rubric-quality component without rubric improvements\<close>

text \<open>
  C3. The claim is that the rubric-quality component is 0 when no rubric improvement
  has occurred. The source adds its bonus of 10 to the default meta-score 0 as well:
  for the history of one round with score 50 and no rubric improvement it returns 39,
  where the formula of the claim gives 36.
\<close>

theorem final_confidence_adds_bonus_without_improvements:
  "calculate_final_confidence default_config [[(''score'', PInt 50)]] [] = Inr 39
   \<and> spec_aggregate 50 95 50 None = 36"
  by (simp add: confidence_eval default_config_def spec_aggregate_def
      spec_target_achievement_def spec_rubric_quality_def)

section \<open>Exceptions that leave the run\<close>

text \<open>
  C9. The claim is that no exception escapes the run functions. A critique record
  whose score is the string \<^verbatim>\<open>"high"\<close> makes \<^verbatim>\<open>int\<close> raise \<^verbatim>\<open>ValueError\<close> in the first
  round of \<^verbatim>\<open>run_dual_improvement\<close>, and a variation payload that is a number makes the
  slice in \<^verbatim>\<open>cross_validate_improvement\<close> raise \<^verbatim>\<open>TypeError\<close> in the first round of
  \<^verbatim>\<open>enhanced_run_dual_improvement\<close>; neither is caught.
\<close>

theorem exceptions_escape_the_run:
  "run_dual_improvement default_config oracle_word_score ''input'' ''S'' ''R'' = Inl ValueError
   \<and> enhanced_run_dual_improvement default_config oracle_number_variations ''input'' ''S'' ''R''
       = Inl TypeError"
  by (simp add: basic_eval enhanced_eval cross_eval confidence_eval oracle_word_score_def
      oracle_number_variations_def default_config_def)

section \<open>The cross-validator\<close>

lemma worse_inputs:
  "build_test_inputs oracle_worse ''input'' 2 n = Inr ([PStr ''input'', PStr ''variant''], Suc n)"
  by (simp add: build_test_inputs_def get_llm_response_json_def oracle_worse_def py_take_def)

lemma worse_scores:
  "cv_loop oracle_worse [] ''S1'' ''S2'' (py_take 2 [PStr ''input'', PStr ''variant'']) [] [] n
     = Inr ([PInt 50, PInt 50], [PInt 40, PInt 40], n + 8)"
  by (simp add: py_take_def score_prompt_def get_critique_def get_llm_response_def
      get_llm_response_json_def oracle_worse_def dict_get_def)

text \<open>
  C5. Whenever both score lists are non-empty (and hold numbers),
  \<^verbatim>\<open>cross_validate_improvement\<close> returns \<open>clamp(50 + 2 (mean new - mean old), 0, 100)\<close>;
  whenever one of them is empty it returns 50. The arithmetic is exact.
\<close>

theorem cross_validate_confidence_formula:
  assumes "build_test_inputs e user_input test_cases n = Inr (test_inputs, n1)"
    and "cv_loop e cih old_prompt new_prompt (py_take test_cases test_inputs) [] [] n1
           = Inr (old_scores, new_scores, n2)"
    and "nums old_scores = Inr os" and "nums new_scores = Inr ns"
  shows "cross_validate_improvement e cih old_prompt new_prompt user_input test_cases n =
           Inr (if os \<noteq> [] \<and> ns \<noteq> [] then clamp (50 + 2 * (mean ns - mean os)) 0 100 else 50,
                n2)"
  using assms by (rule cross_validate_result)

theorem cross_validate_confidence_formula_witness:
  "build_test_inputs oracle_worse ''input'' 2 0 = Inr ([PStr ''input'', PStr ''variant''], 1)
   \<and> cv_loop oracle_worse [] ''S1'' ''S2'' (py_take 2 [PStr ''input'', PStr ''variant'']) [] [] 1
       = Inr ([PInt 50, PInt 50], [PInt 40, PInt 40], 9)
   \<and> cross_validate_improvement oracle_worse [] ''S1'' ''S2'' ''input'' 2 0 = Inr (30, 9)"
proof -
  have h1: "build_test_inputs oracle_worse ''input'' 2 0
              = Inr ([PStr ''input'', PStr ''variant''], 1)"
    using worse_inputs[of 0] by simp
  have h2: "cv_loop oracle_worse [] ''S1'' ''S2'' (py_take 2 [PStr ''input'', PStr ''variant''])
              [] [] 1 = Inr ([PInt 50, PInt 50], [PInt 40, PInt 40], 9)"
    using worse_scores[of 1] by simp
  have h3: "nums [PInt 50, PInt 50] = Inr [50, 50]" by simp
  have h4: "nums [PInt 40, PInt 40] = Inr [40, 40]" by simp
  from cross_validate_confidence_formula[OF h1 h2 h3 h4] h1 h2 show ?thesis
    by (simp add: clamp_def mean_def)
qed

text \<open>
  C8. The claim is that after a failed generation of variations the base input is
  reused for the remaining slots, so that the number of test inputs is the requested
  sample count. The source leaves the list of test inputs as it is: with two samples
  requested and no variations, one test input is compared.
\<close>

theorem variation_failure_drops_samples:
  "build_test_inputs oracle_missing_score ''input'' 2 0 = Inr ([PStr ''input''], 1)"
  by (simp add: build_test_inputs_def get_llm_response_json_def oracle_missing_score_def)

text \<open>
  C8, as amended: when more than one sample is requested and the generation of
  variations fails (the reply is \<^verbatim>\<open>None\<close> or otherwise falsy), the test inputs are the
  base input alone, and one comparison is made.
\<close>

theorem variation_failure_keeps_one_input:
  assumes "1 < test_cases"
    and "\<not> truthy (json_reply e (Variations (test_cases - 1) user_input) n)"
  shows "build_test_inputs e user_input test_cases n = Inr ([PStr user_input], Suc n)
         \<and> length (py_take test_cases [PStr user_input]) = 1"
  using assms by (simp add: build_test_inputs_def get_llm_response_json_def py_take_def)

theorem variation_failure_keeps_one_input_witness:
  "1 < (2::int)
   \<and> \<not> truthy (json_reply oracle_missing_score (Variations (2 - 1) ''input'') 0)
   \<and> build_test_inputs oracle_missing_score ''input'' 2 0 = Inr ([PStr ''input''], Suc 0)
   \<and> length (py_take 2 [PStr ''input'']) = 1"
proof -
  have h1: "1 < (2::int)" by simp
  have h2: "\<not> truthy (json_reply oracle_missing_score (Variations (2 - 1) ''input'') 0)"
    by (simp add: oracle_missing_score_def)
  from variation_failure_keeps_one_input[OF h1 h2] h1 h2 show ?thesis by simp
qed

section \<open>Acceptance of a proposed system prompt\<close>

text \<open>
  C4. In the enhanced controller a proposed system prompt replaces the active one if
  and only if its cross-validation confidence is at least 60. When all sampled
  comparisons fail (a score list is empty) the confidence is 50, when the scores of
  the proposed prompt are lower sample by sample it is below 60, and in both cases
  the active system prompt stays as it is.
\<close>

theorem improvement_accepted_iff_confident:
  assumes enabled: "ENABLE_SYSTEM_PROMPT_IMPROVEMENT cfg" "current_score st < TARGET_SCORE cfg"
      "it < MAX_ITERATIONS cfg"
    and proposal: "text_reply e (RefineSystem (current_system_prompt st) critique_text) (calls st)
                     = Some new_prompt" "new_prompt \<noteq> []"
    and inputs: "build_test_inputs e user_input (VALIDATION_ROUNDS cfg) (Suc (calls st))
                   = Inr (test_inputs, n1)"
    and scores: "cv_loop e (critique_improvement_history st) (current_system_prompt st) new_prompt
                   (py_take (VALIDATION_ROUNDS cfg) test_inputs) [] [] n1
                   = Inr (old_scores, new_scores, n2)"
    and numeric: "nums old_scores = Inr os" "nums new_scores = Inr ns"
  shows "\<exists>confidence st'.
           cross_validate_improvement e (critique_improvement_history st) (current_system_prompt st)
             new_prompt user_input (VALIDATION_ROUNDS cfg) (Suc (calls st)) = Inr (confidence, n2)
         \<and> improve_with_cross_validation cfg e user_input it critique_text st = Inr st'
         \<and> current_system_prompt st'
             = (if 60 \<le> confidence then new_prompt else current_system_prompt st)
         \<and> (os = [] \<or> ns = [] \<longrightarrow>
              confidence = 50 \<and> current_system_prompt st' = current_system_prompt st)
         \<and> (os \<noteq> [] \<and> list_all2 (<) ns os \<longrightarrow>
              confidence < 60 \<and> current_system_prompt st' = current_system_prompt st)"
proof -
  define confidence where
    "confidence = (if os \<noteq> [] \<and> ns \<noteq> [] then clamp (50 + 2 * (mean ns - mean os)) 0 100 else 50)"
  have cv: "cross_validate_improvement e (critique_improvement_history st)
              (current_system_prompt st) new_prompt user_input (VALIDATION_ROUNDS cfg)
              (Suc (calls st)) = Inr (confidence, n2)"
    unfolding confidence_def
    by (rule cross_validate_result[OF inputs scores numeric])
  define st' where
    "st' = (if 60 \<le> confidence
            then st\<lparr>calls := Suc (calls st)\<rparr>\<lparr>current_system_prompt := new_prompt, calls := n2\<rparr>
            else st\<lparr>calls := Suc (calls st)\<rparr>\<lparr>calls := n2\<rparr>)"
  have step: "improve_with_cross_validation cfg e user_input it critique_text st = Inr st'"
    using enabled proposal cv
    by (simp add: improve_with_cross_validation_def get_llm_response_def Let_def st'_def)
  have prompt: "current_system_prompt st'
                  = (if 60 \<le> confidence then new_prompt else current_system_prompt st)"
    by (simp add: st'_def)
  have empty: "confidence = 50" if "os = [] \<or> ns = []"
    using that by (auto simp: confidence_def)
  have lower: "confidence < 60" if "os \<noteq> []" "list_all2 (<) ns os"
  proof -
    from that have ne: "ns \<noteq> []" by auto
    from mean_strict_mono[OF that(2,1)] have "mean ns - mean os < 0" by simp
    then have "clamp (50 + 2 * (mean ns - mean os)) 0 100 < 60" by (rule clamp_below)
    moreover have "confidence = clamp (50 + 2 * (mean ns - mean os)) 0 100"
      using ne that(1) by (simp add: confidence_def)
    ultimately show ?thesis by (simp only:)
  qed
  from empty have e2: "os = [] \<or> ns = [] \<longrightarrow>
      confidence = 50 \<and> current_system_prompt st' = current_system_prompt st"
    using prompt by auto
  from lower have l2: "os \<noteq> [] \<and> list_all2 (<) ns os \<longrightarrow>
      confidence < 60 \<and> current_system_prompt st' = current_system_prompt st"
    using prompt by auto
  from cv step prompt e2 l2 show ?thesis by blast
qed

theorem improvement_accepted_iff_confident_witness:
  "list_all2 (<) [40, 40] [50, 50 :: real]
   \<and> map_sum id current_system_prompt
       (improve_with_cross_validation default_config oracle_worse ''input'' 1 (PStr ''fine'')
          (initial_session ''S1'' ''R1'')) = Inr ''S1''
   \<and> cv_loop oracle_no_samples [] ''S1'' ''S2'' (py_take 2 [PStr ''input'']) [] [] 2
       = Inr ([], [], 4)
   \<and> map_sum id current_system_prompt
       (improve_with_cross_validation default_config oracle_no_samples ''input'' 1 (PStr ''fine'')
          (initial_session ''S1'' ''R1'')) = Inr ''S1''"
proof -
  let ?st = "initial_session ''S1'' ''R1''"
  have en: "ENABLE_SYSTEM_PROMPT_IMPROVEMENT default_config"
      "current_score ?st < TARGET_SCORE default_config" "1 < MAX_ITERATIONS default_config"
    by (simp_all add: default_config_def initial_session_def)
  have ne: "''S2'' \<noteq> []" by simp
  have lo: "list_all2 (<) [40, 40] [50, 50 :: real]" by simp
  have w1: "text_reply oracle_worse (RefineSystem (current_system_prompt ?st) (PStr ''fine''))
              (calls ?st) = Some ''S2''"
    by (simp add: oracle_worse_def)
  have w2: "build_test_inputs oracle_worse ''input'' (VALIDATION_ROUNDS default_config)
              (Suc (calls ?st)) = Inr ([PStr ''input'', PStr ''variant''], 2)"
    using worse_inputs[of 1] by (simp add: default_config_def initial_session_def)
  have w3: "cv_loop oracle_worse (critique_improvement_history ?st) (current_system_prompt ?st)
              ''S2'' (py_take (VALIDATION_ROUNDS default_config)
                        [PStr ''input'', PStr ''variant'']) [] [] 2
              = Inr ([PInt 50, PInt 50], [PInt 40, PInt 40], 10)"
    using worse_scores[of 2] by (simp add: default_config_def initial_session_def)
  have w4: "nums [PInt 50, PInt 50] = Inr [50, 50]" by simp
  have w5: "nums [PInt 40, PInt 40] = Inr [40, 40]" by simp
  from improvement_accepted_iff_confident[OF en w1 ne w2 w3 w4 w5] lo
  have worse: "map_sum id current_system_prompt
       (improve_with_cross_validation default_config oracle_worse ''input'' 1 (PStr ''fine'') ?st)
       = Inr ''S1''"
    by (auto simp: initial_session_def)
  have n1: "text_reply oracle_no_samples (RefineSystem (current_system_prompt ?st) (PStr ''fine''))
              (calls ?st) = Some ''S2''"
    by (simp add: oracle_no_samples_def)
  have n2: "build_test_inputs oracle_no_samples ''input'' (VALIDATION_ROUNDS default_config)
              (Suc (calls ?st)) = Inr ([PStr ''input''], 2)"
    by (simp add: build_test_inputs_def get_llm_response_json_def oracle_no_samples_def
        default_config_def initial_session_def)
  have n3': "cv_loop oracle_no_samples [] ''S1'' ''S2'' (py_take 2 [PStr ''input'']) [] [] 2
               = Inr ([], [], 4)"
    by (simp add: py_take_def score_prompt_def get_llm_response_def oracle_no_samples_def)
  have n3: "cv_loop oracle_no_samples (critique_improvement_history ?st)
              (current_system_prompt ?st) ''S2''
              (py_take (VALIDATION_ROUNDS default_config) [PStr ''input'']) [] [] 2
              = Inr ([], [], 4)"
    using n3' by (simp add: default_config_def initial_session_def)
  have n4: "nums [] = Inr []" by simp
  from improvement_accepted_iff_confident[OF en n1 ne n2 n3 n4 n4]
  have none: "map_sum id current_system_prompt
       (improve_with_cross_validation default_config oracle_no_samples ''input'' 1 (PStr ''fine'')
          ?st) = Inr ''S1''"
    by (auto simp: initial_session_def)
  from lo worse n3' none show ?thesis by simp
qed

section \<open>The validation report\<close>




section \<open>Ingestion of scores\<close>




section \<open>Termination precedence\<close>

text \<open>
  C7. When a round ends with the score at the target (in the enhanced controller also
  with the overall confidence at the confidence target), the run ends as target
  reached: the basic loop leaves by its \<^verbatim>\<open>while\<close> test with \<open>target_achieved\<close>, the
  enhanced loop by the break for the achieved target. This holds whatever the
  number of rounds without improvement is, in particular when it has reached the
  patience; the early stopping break is not taken.
\<close>

theorem target_takes_precedence:
  "(current_score st < TARGET_SCORE cfg \<and> it < MAX_ITERATIONS cfg
      \<and> basic_round cfg e user_input (it + 1) st = Inr (x, st')
      \<and> TARGET_SCORE cfg \<le> current_score st'
    \<longrightarrow> basic_loop cfg e user_input it st = Inr (WhileExit, it + 1, st')
        \<and> target_achieved cfg st')
   \<and> (current_score st < TARGET_SCORE cfg \<and> it < MAX_ITERATIONS cfg
      \<and> calculate_final_confidence cfg (history st) (critique_improvement_history st) = Inr c
      \<and> c < CONFIDENCE_THRESHOLD cfg
      \<and> enhanced_round cfg e user_input (it + 1) st = Inr (y, st'')
      \<and> TARGET_SCORE cfg \<le> current_score st''
      \<and> calculate_final_confidence cfg (history st'') (critique_improvement_history st'')
          = Inr c'
      \<and> CONFIDENCE_THRESHOLD cfg \<le> c'
    \<longrightarrow> enhanced_loop cfg e user_input it st = Inr (BreakTargetAchieved, it + 1, st''))"
proof (intro conjI impI)
  assume a: "current_score st < TARGET_SCORE cfg \<and> it < MAX_ITERATIONS cfg
      \<and> basic_round cfg e user_input (it + 1) st = Inr (x, st')
      \<and> TARGET_SCORE cfg \<le> current_score st'"
  then have r: "basic_round cfg e user_input (it + 1) st = Inr (x, st')" by simp
  from basic_round_cases[OF r] a have x: "x = None" by auto
  have stop: "basic_loop cfg e user_input (it + 1) st' = Inr (WhileExit, it + 1, st')"
    using a by (subst basic_loop.simps) simp
  show "basic_loop cfg e user_input it st = Inr (WhileExit, it + 1, st')"
    using a x stop by (subst basic_loop.simps) simp
  show "target_achieved cfg st'"
    using a by (simp add: target_achieved_def)
next
  assume a: "current_score st < TARGET_SCORE cfg \<and> it < MAX_ITERATIONS cfg
      \<and> calculate_final_confidence cfg (history st) (critique_improvement_history st) = Inr c
      \<and> c < CONFIDENCE_THRESHOLD cfg
      \<and> enhanced_round cfg e user_input (it + 1) st = Inr (y, st'')
      \<and> TARGET_SCORE cfg \<le> current_score st''
      \<and> calculate_final_confidence cfg (history st'') (critique_improvement_history st'')
          = Inr c'
      \<and> CONFIDENCE_THRESHOLD cfg \<le> c'"
  then have r: "enhanced_round cfg e user_input (it + 1) st = Inr (y, st'')" by simp
  from enhanced_round_cases[OF r] a have y: "y = Some BreakTargetAchieved"
    by (auto simp: enhanced_early_stopping_def)
  show "enhanced_loop cfg e user_input it st = Inr (BreakTargetAchieved, it + 1, st'')"
    using a y by (subst enhanced_loop.simps) simp
qed

theorem target_takes_precedence_witness:
  "map_sum id (map_prod id (map_prod id iterations_without_improvement))
     (basic_loop default_config oracle_score_100 ''input'' 3 stagnant_session)
     = Inr (WhileExit, 4, EARLY_STOPPING_PATIENCE default_config)
   \<and> map_sum id (map_prod id (map_prod id iterations_without_improvement))
       (enhanced_loop default_config oracle_score_100 ''input'' 3 stagnant_session)
     = Inr (BreakTargetAchieved, 4, EARLY_STOPPING_PATIENCE default_config)"
proof -
  obtain x st' where
    b: "basic_round default_config oracle_score_100 ''input'' (3 + 1) stagnant_session
          = Inr (x, st')"
    and bs: "current_score st' = 100" "iterations_without_improvement st' = 3"
    using stagnant_basic_round
    by (cases "basic_round default_config oracle_score_100 ''input'' 4 stagnant_session") auto
  obtain y st'' where
    r: "enhanced_round default_config oracle_score_100 ''input'' (3 + 1) stagnant_session
          = Inr (y, st'')"
    and rs: "current_score st'' = 100" "iterations_without_improvement st'' = 3"
      "calculate_final_confidence default_config (history st'')
         (critique_improvement_history st'') = Inr 91"
    using stagnant_enhanced_round
    by (cases "enhanced_round default_config oracle_score_100 ''input'' 4 stagnant_session") auto
  have c0: "current_score stagnant_session < TARGET_SCORE default_config"
      "3 < MAX_ITERATIONS default_config"
    by (simp_all add: stagnant_session_def default_config_def)
  have t1: "TARGET_SCORE default_config \<le> current_score st'"
    using bs by (simp add: default_config_def)
  have t2: "TARGET_SCORE default_config \<le> current_score st''"
    "(88::int) < CONFIDENCE_THRESHOLD default_config"
    "CONFIDENCE_THRESHOLD default_config \<le> (91::int)"
    using rs by (simp_all add: default_config_def)
  from target_takes_precedence[of stagnant_session default_config 3 oracle_score_100 "''input''"
      x st' 88 y st'' 91]
    c0 b t1 stagnant_start_confidence r t2 rs(3)
  have "basic_loop default_config oracle_score_100 ''input'' 3 stagnant_session
          = Inr (WhileExit, 3 + 1, st')"
    and "enhanced_loop default_config oracle_score_100 ''input'' 3 stagnant_session
          = Inr (BreakTargetAchieved, 3 + 1, st'')"
    by blast+
  then show ?thesis
    using bs rs by (simp add: default_config_def)
qed

section \<open>Meta-stability on the histories of the enhanced controller\<close>

text \<open>
  C10. No record appended by the loop of the enhanced controller has a \<open>meta_score\<close>
  key, and the validator reads the meta-scores with the default 0. So on the history
  of any enhanced run with at least 2 records (and a positive rubric-improvement
  threshold, as configured) the validator returns a report whose meta-stability is 0
  and whose confidence is at most 80.
\<close>

theorem enhanced_history_without_meta_scores:
  assumes run: "enhanced_run_dual_improvement cfg e user_input initial_system_prompt
                  initial_critique_prompt = Inr (x, it, st, c)"
    and thr: "0 < CRITIQUE_IMPROVEMENT_THRESHOLD cfg"
    and len: "2 \<le> length (history st)"
  shows "list_all (\<lambda>h. map_of h ''meta_score'' = None) (history st)
         \<and> (\<exists>report k. validate_critique_quality cfg (history st) = Inr report
               \<and> map_of report ''meta_stability'' = Some (PInt 0)
               \<and> map_of report ''confidence'' = Some (PInt k) \<and> k \<le> 80)"
proof -
  from run obtain it' where
    loop: "enhanced_loop cfg e user_input 0
             (initial_session initial_system_prompt initial_critique_prompt) = Inr (x, it', st)"
    by (auto simp: enhanced_run_dual_improvement_def bindE_def split: sum.splits)
  have "list_all loop_record
          (history (initial_session initial_system_prompt initial_critique_prompt))"
    by (simp add: initial_session_def)
  from enhanced_loop_records[OF loop this] have recs: "list_all loop_record (history st)" .
  then have "list_all (\<lambda>h. map_of h ''meta_score'' = None) (history st)"
    by (simp add: list_all_iff loop_record_def)
  with validate_loop_records[OF recs len thr] show ?thesis by simp
qed

theorem enhanced_history_without_meta_scores_witness:
  "0 < CRITIQUE_IMPROVEMENT_THRESHOLD default_config
   \<and> length (run_history
        (enhanced_run_dual_improvement default_config oracle_missing_score ''input'' ''S'' ''R''))
       = 3
   \<and> list_all (\<lambda>h. map_of h ''meta_score'' = None)
       (run_history
         (enhanced_run_dual_improvement default_config oracle_missing_score ''input'' ''S'' ''R''))
   \<and> (\<exists>report k.
         validate_critique_quality default_config
           (run_history
             (enhanced_run_dual_improvement default_config oracle_missing_score ''input''
                ''S'' ''R'')) = Inr report
         \<and> map_of report ''meta_stability'' = Some (PInt 0)
         \<and> map_of report ''confidence'' = Some (PInt k) \<and> k \<le> 80)"
proof -
  obtain x it st c where
    run: "enhanced_run_dual_improvement default_config oracle_missing_score ''input'' ''S'' ''R''
            = Inr (x, it, st, c)"
    and len: "length (history st) = 3"
    using unscored_enhanced_run
    by (cases "enhanced_run_dual_improvement default_config oracle_missing_score ''input''
                 ''S'' ''R''") auto
  have thr: "0 < CRITIQUE_IMPROVEMENT_THRESHOLD default_config"
    by (simp add: default_config_def)
  from len have l2: "2 \<le> length (history st)" by simp
  from enhanced_history_without_meta_scores[OF run thr l2] thr len show ?thesis
    by (simp add: run run_history_def)
qed

end
